theory Spec2Isabelle
  imports Main
begin

section \<open>Errors and values\<close>

text \<open>
  A JavaScript exception is a value: its \<open>message\<close> and, for an HTTP client error,
  the optional \<open>error.response?.data?.detail\<close>. A rejected promise is \<open>Inl\<close> of it.
  What the outside world does (storage faults, the network, the clock, the server)
  is an argument of the model: \<open>None\<close> for an operation that went through, \<open>Some e\<close>
  for one that rejected with \<open>e\<close>.
\<close>

datatype error = Error (error_message: string) (error_detail: "string option")

text \<open>Decimal rendering of a number, as \<open>Number.prototype.toString\<close> and template
  literals produce it for integers.\<close>

definition digit :: "nat \<Rightarrow> char" where
  "digit d = ''0123456789'' ! d"

function toString_nat :: "nat \<Rightarrow> string" where
  "toString_nat n = (if n < 10 then [digit n] else toString_nat (n div 10) @ [digit (n mod 10)])"
  by pat_completeness auto
termination
  by (relation "measure (\<lambda>n. n)") auto

declare toString_nat.simps [simp del]

definition toString :: "int \<Rightarrow> string" where
  "toString t = (if t < 0 then CHR ''-'' # toString_nat (nat (- t)) else toString_nat (nat t))"

section \<open>storageService.js: the persistent local store\<close>

text \<open>
  A stored photo: the fields of \<open>photoData\<close> as \<open>PhotoUploadScreen.savePhoto\<close> builds it
  (\<open>uri\<close>, \<open>fileName\<close>, \<open>latitude\<close>, \<open>longitude\<close>) and the fields \<open>saveOfflinePhoto\<close> and
  \<open>markPhotoAsSynced\<close> add. Times are milliseconds since the epoch: the ISO string
  written by \<open>toISOString\<close> and read back by \<open>new Date(...)\<close> denotes the same
  millisecond. \<open>syncedAt = None\<close> is a photo object without that field.
\<close>

record photoData =
  uri :: string
  fileName :: string
  latitude :: "int option"
  longitude :: "int option"

record photo = photoData +
  photoId :: string
  complaintId :: string
  timestamp :: int
  synced :: bool
  syncedAt :: "int option"

text \<open>A cached complaint: the key \<open>complaint_id\<close> and the rest of the entity.\<close>

record complaint =
  complaint_id :: string
  payload :: string

text \<open>
  The three AsyncStorage keys \<open>offline_photos\<close>, \<open>synced_complaints\<close> and \<open>last_sync\<close>,
  each holding the parsed value, \<open>None\<close> when the key was never written (\<open>getItem\<close>
  yields \<open>null\<close>).
\<close>

record storage =
  offline_photos :: "photo list option"
  synced_complaints :: "complaint list option"
  last_sync :: "int option"

text \<open>
  \<open>AsyncStorage.getItem\<close> and \<open>setItem\<close>: each may reject. A stored string that
  \<open>JSON.parse\<close> cannot read throws inside the same \<open>try\<close> as the read, so it is a read
  fault too.
\<close>

definition getItem :: "error option \<Rightarrow> 'a \<Rightarrow> error + 'a" where
  "getItem fault v = (case fault of Some e \<Rightarrow> Inl e | None \<Rightarrow> Inr v)"

definition setItem_OFFLINE_PHOTOS :: "error option \<Rightarrow> photo list \<Rightarrow> storage \<Rightarrow> error + storage" where
  "setItem_OFFLINE_PHOTOS fault v st =
     (case fault of Some e \<Rightarrow> Inl e | None \<Rightarrow> Inr (st\<lparr>offline_photos := Some v\<rparr>))"

definition setItem_SYNCED_COMPLAINTS :: "error option \<Rightarrow> complaint list \<Rightarrow> storage \<Rightarrow> error + storage" where
  "setItem_SYNCED_COMPLAINTS fault v st =
     (case fault of Some e \<Rightarrow> Inl e | None \<Rightarrow> Inr (st\<lparr>synced_complaints := Some v\<rparr>))"

definition setItem_LAST_SYNC :: "error option \<Rightarrow> int \<Rightarrow> storage \<Rightarrow> error + storage" where
  "setItem_LAST_SYNC fault v st =
     (case fault of Some e \<Rightarrow> Inl e | None \<Rightarrow> Inr (st\<lparr>last_sync := Some v\<rparr>))"

text \<open>\<open>getOfflinePhotos\<close>: \<open>data ? JSON.parse(data) : []\<close>, and \<open>[]\<close> from the \<open>catch\<close>.\<close>

definition getOfflinePhotos :: "error option \<Rightarrow> storage \<Rightarrow> error + photo list" where
  "getOfflinePhotos rd st =
     (case getItem rd (offline_photos st) of
        Inl e \<Rightarrow> Inr []
      | Inr data \<Rightarrow> (case data of None \<Rightarrow> Inr [] | Some ps \<Rightarrow> Inr ps))"

text \<open>
  \<open>saveOfflinePhoto\<close>: \<open>idClock\<close> is the reading of \<open>Date.now()\<close>, \<open>now\<close> that of
  \<open>new Date()\<close>. The \<open>catch\<close> logs and throws the error again.
\<close>

definition saveOfflinePhoto ::
  "error option \<Rightarrow> error option \<Rightarrow> int \<Rightarrow> int \<Rightarrow> string \<Rightarrow> photoData \<Rightarrow> storage
     \<Rightarrow> error + (photo \<times> storage)" where
  "saveOfflinePhoto rd wr idClock now cid pd st =
     (case getOfflinePhotos rd st of
        Inl e \<Rightarrow> Inl e
      | Inr existingData \<Rightarrow>
          (let newPhoto = \<lparr>uri = uri pd, fileName = fileName pd, latitude = latitude pd,
                          longitude = longitude pd, photoId = toString idClock,
                          complaintId = cid, timestamp = now, synced = False,
                          syncedAt = None\<rparr>
           in case setItem_OFFLINE_PHOTOS wr (existingData @ [newPhoto]) st of
                Inl e \<Rightarrow> Inl e
              | Inr st' \<Rightarrow> Inr (newPhoto, st')))"

definition getOfflinePhotosByComplaint :: "error option \<Rightarrow> string \<Rightarrow> storage \<Rightarrow> error + photo list" where
  "getOfflinePhotosByComplaint rd cid st =
     (case getOfflinePhotos rd st of
        Inl e \<Rightarrow> Inr []
      | Inr allPhotos \<Rightarrow> Inr (filter (\<lambda>p. complaintId p = cid) allPhotos))"

definition getUnsyncedPhotos :: "error option \<Rightarrow> storage \<Rightarrow> error + photo list" where
  "getUnsyncedPhotos rd st =
     (case getOfflinePhotos rd st of
        Inl e \<Rightarrow> Inr []
      | Inr allPhotos \<Rightarrow> Inr (filter (\<lambda>p. \<not> synced p) allPhotos))"

text \<open>\<open>markPhotoAsSynced\<close>: every stored photo with the id is marked; the \<open>catch\<close>
  throws again.\<close>

definition markPhotoAsSynced ::
  "error option \<Rightarrow> error option \<Rightarrow> int \<Rightarrow> string \<Rightarrow> storage \<Rightarrow> error + storage" where
  "markPhotoAsSynced rd wr now pid st =
     (case getOfflinePhotos rd st of
        Inl e \<Rightarrow> Inl e
      | Inr allPhotos \<Rightarrow>
          setItem_OFFLINE_PHOTOS wr
            (map (\<lambda>p. if photoId p = pid then p\<lparr>synced := True, syncedAt := Some now\<rparr> else p)
               allPhotos) st)"

text \<open>
  Dates. A \<open>Date\<close> holds a UTC time value in milliseconds. \<open>getDate\<close> and \<open>setDate\<close> work
  on the local time value, \<open>LocalTime(t) = t + LocalTZA(t, true)\<close>, and the result goes
  back through \<open>UTC(t) = t - LocalTZA(t, false)\<close>. The time zone of the device is not
  part of the repository; it is a parameter: the offset in force at a UTC instant and
  the offset by which a local time value is read.
\<close>

record timeZone =
  offsetAtUTC :: "int \<Rightarrow> int"
  offsetAtLocal :: "int \<Rightarrow> int"

definition msPerDay :: int where
  "msPerDay = 86400000"

definition LocalTime :: "timeZone \<Rightarrow> int \<Rightarrow> int" where
  "LocalTime z t = t + offsetAtUTC z t"

definition UTC :: "timeZone \<Rightarrow> int \<Rightarrow> int" where
  "UTC z t = t - offsetAtLocal z t"

text \<open>
  \<open>d.setDate(d.getDate() - 7)\<close> on a date \<open>d\<close> with time value \<open>now\<close>: the day number of
  the local time value goes back by seven and the time within the day stays, so the
  local time value goes back by seven times \<open>msPerDay\<close>; the new time value is its \<open>UTC\<close>.
\<close>

definition setDate_minus_7 :: "timeZone \<Rightarrow> int \<Rightarrow> int" where
  "setDate_minus_7 z now = UTC z (LocalTime z now - 7 * msPerDay)"

text \<open>
  \<open>cleanupSyncedPhotos\<close>. \<open>keepPhoto\<close> is the predicate of its \<open>filter\<close>;
  \<open>new Date(undefined)\<close> is an invalid date, and every comparison with it is false.
\<close>

definition keepPhoto :: "int \<Rightarrow> photo \<Rightarrow> bool" where
  "keepPhoto sevenDaysAgo p =
     (if \<not> synced p then True
      else (case syncedAt p of None \<Rightarrow> False | Some syncedDate \<Rightarrow> syncedDate > sevenDaysAgo))"

definition cleanupSyncedPhotos ::
  "error option \<Rightarrow> error option \<Rightarrow> timeZone \<Rightarrow> int \<Rightarrow> storage \<Rightarrow> error + storage" where
  "cleanupSyncedPhotos rd wr z now st =
     (case getOfflinePhotos rd st of
        Inl e \<Rightarrow> Inr st
      | Inr allPhotos \<Rightarrow>
          (let sevenDaysAgo = setDate_minus_7 z now;
               filteredPhotos = filter (keepPhoto sevenDaysAgo) allPhotos
           in case setItem_OFFLINE_PHOTOS wr filteredPhotos st of
                Inl e \<Rightarrow> Inr st
              | Inr st' \<Rightarrow> Inr st'))"

definition getSyncedComplaints :: "error option \<Rightarrow> storage \<Rightarrow> error + complaint list" where
  "getSyncedComplaints rd st =
     (case getItem rd (synced_complaints st) of
        Inl e \<Rightarrow> Inr []
      | Inr data \<Rightarrow> (case data of None \<Rightarrow> Inr [] | Some cs \<Rightarrow> Inr cs))"

text \<open>\<open>Array.prototype.findIndex\<close>, with \<open>None\<close> for \<open>-1\<close>.\<close>

fun findIndex :: "('a \<Rightarrow> bool) \<Rightarrow> 'a list \<Rightarrow> nat option" where
  "findIndex P [] = None"
| "findIndex P (x # xs) =
     (if P x then Some 0 else (case findIndex P xs of None \<Rightarrow> None | Some i \<Rightarrow> Some (Suc i)))"

definition saveSyncedComplaint :: "error option \<Rightarrow> error option \<Rightarrow> complaint \<Rightarrow> storage \<Rightarrow> error + storage" where
  "saveSyncedComplaint rd wr c st =
     (case getSyncedComplaints rd st of
        Inl e \<Rightarrow> Inr st
      | Inr existingComplaints \<Rightarrow>
          (let updated =
                 (case findIndex (\<lambda>x. complaint_id x = complaint_id c) existingComplaints of
                    Some index \<Rightarrow> existingComplaints[index := c]
                  | None \<Rightarrow> existingComplaints @ [c])
           in case setItem_SYNCED_COMPLAINTS wr updated st of
                Inl e \<Rightarrow> Inr st
              | Inr st' \<Rightarrow> Inr st'))"

text \<open>\<open>StorageService.getComplaintById\<close>: \<open>find\<close> yields \<open>undefined\<close> (here \<open>None\<close>)
  when no snapshot has the key.\<close>

definition storage_getComplaintById :: "error option \<Rightarrow> string \<Rightarrow> storage \<Rightarrow> error + complaint option" where
  "storage_getComplaintById rd cid st =
     (case getSyncedComplaints rd st of
        Inl e \<Rightarrow> Inr None
      | Inr complaints \<Rightarrow> Inr (find (\<lambda>c. complaint_id c = cid) complaints))"

definition updateLastSync :: "error option \<Rightarrow> int \<Rightarrow> storage \<Rightarrow> error + storage" where
  "updateLastSync wr now st =
     (case setItem_LAST_SYNC wr now st of Inl e \<Rightarrow> Inr st | Inr st' \<Rightarrow> Inr st')"

definition getLastSync :: "error option \<Rightarrow> storage \<Rightarrow> error + int option" where
  "getLastSync rd st =
     (case getItem rd (last_sync st) of Inl e \<Rightarrow> Inr None | Inr v \<Rightarrow> Inr v)"

section \<open>syncService.js: connectivity and the upload orchestrator\<close>

datatype NetworkStateType =
  NONE | UNKNOWN | CELLULAR | WIFI | BLUETOOTH | ETHERNET | WIMAX | VPN | OTHER

record networkState =
  isConnected :: bool
  isInternetReachable :: bool
  netType :: NetworkStateType

text \<open>The argument is what \<open>Network.getNetworkStateAsync()\<close> yields; a rejection is
  caught and gives \<open>false\<close>.\<close>

definition isConnectedToWiFi :: "error + networkState \<Rightarrow> bool" where
  "isConnectedToWiFi ns =
     (case ns of Inl e \<Rightarrow> False | Inr networkState \<Rightarrow> isConnected networkState \<and> netType networkState = WIFI)"

definition isOnline :: "error + networkState \<Rightarrow> bool" where
  "isOnline ns =
     (case ns of Inl e \<Rightarrow> False | Inr networkState \<Rightarrow> isConnected networkState \<and> isInternetReachable networkState)"

text \<open>
  What the world does during one call of \<open>syncPhotos\<close>: the network state, the fault
  of every storage access, the outcome of the reachability request and of the upload of
  the \<open>i\<close>-th loop iteration, the clock readings and the time zone. \<open>apiBaseUrl\<close> is the
  constant \<open>API_BASE_URL\<close> of \<open>config/api\<close>.

  Other tasks run while the pass is suspended, and the screens write the photo list
  (\<open>saveOfflinePhoto\<close> from the upload screen). \<open>othersDuringItem i\<close> is what they have made
  of the stored photo list by the time the upload of iteration \<open>i\<close> has settled, and
  \<open>othersAfterLoop\<close> by the time the cleanup reads it. \<open>setItem\<close> replaces the whole
  list, so a write of another task that falls between the read and the write of
  \<open>markPhotoAsSynced\<close> or \<open>cleanupSyncedPhotos\<close> is overwritten when that write goes
  through, and stands as a write after the operation when it faults: the points between
  the storage operations of the pass are the ones that matter. No other code writes the
  cursor, and the pass does not read the snapshots.
\<close>

record environment =
  apiBaseUrl :: string
  network :: "error + networkState"
  snapshotRead :: "error option"
  reachable :: "nat \<Rightarrow> error option"
  upload :: "nat \<Rightarrow> error option"
  markRead :: "nat \<Rightarrow> error option"
  markWrite :: "nat \<Rightarrow> error option"
  markClock :: "nat \<Rightarrow> int"
  cursorWrite :: "error option"
  cursorClock :: int
  cleanupRead :: "error option"
  cleanupWrite :: "error option"
  cleanupClock :: int
  zone :: timeZone
  othersDuringItem :: "nat \<Rightarrow> photo list option \<Rightarrow> photo list option"
  othersAfterLoop :: "photo list option \<Rightarrow> photo list option"

text \<open>The object handed to the progress callback.\<close>

record progress_event =
  current :: nat
  total :: nat
  progress_photo :: photo

text \<open>A progress callback returns normally (\<open>None\<close>) or throws.\<close>

type_synonym callback = "progress_event \<Rightarrow> error option"

text \<open>
  The service and what it acts on: the \<open>isSyncing\<close> flag, the local store, and three
  logs that make effects observable: every POST sent to \<open>/api/upload-photo/\<close> with
  whether the server accepted it, every invocation of the progress callback, and every
  call of \<open>uploadPhoto\<close>.
  A call of \<open>syncPhotos\<close> is taken from its start to its return on this world; what
  other tasks do at its suspension points is a second call, which finds the flag set,
  and the writes to the photo list that the environment describes.
\<close>

record world =
  isSyncing :: bool
  store :: storage
  posts :: "(photo \<times> bool) list"
  progress :: "progress_event list"
  attempts :: "photo list"

definition onProgress :: "callback option \<Rightarrow> progress_event \<Rightarrow> world \<Rightarrow> error option \<times> world" where
  "onProgress cb ev w =
     (case cb of None \<Rightarrow> (None, w) | Some f \<Rightarrow> (f ev, w\<lparr>progress := progress w @ [ev]\<rparr>))"

definition cannotReachServer :: "string \<Rightarrow> string \<Rightarrow> string" where
  "cannotReachServer base msg =
     ''Cannot reach server at '' @ base @ ''. Error: '' @ msg
       @ ''. Please check your WiFi connection and ensure you'' @ [CHR 0x27]
       @ ''re on the same network as the server.''"

text \<open>
  \<open>uploadPhoto\<close>: the reachability request, then the multipart POST. Building the form
  data reads the photo only and cannot throw; the request is logged as the photo sent.
\<close>

definition uploadPhoto :: "environment \<Rightarrow> nat \<Rightarrow> photo \<Rightarrow> world \<Rightarrow> (error + unit) \<times> world" where
  "uploadPhoto env i p w0 =
     (let w = w0\<lparr>attempts := attempts w0 @ [p]\<rparr>
      in case reachable env i of
           Some testError \<Rightarrow>
             (Inl (Error (cannotReachServer (apiBaseUrl env) (error_message testError)) None), w)
         | None \<Rightarrow>
             (case upload env i of
                Some e \<Rightarrow> (Inl e, w\<lparr>posts := posts w @ [(p, False)]\<rparr>)
              | None \<Rightarrow> (Inr (), w\<lparr>posts := posts w @ [(p, True)]\<rparr>)))"

text \<open>What other tasks make of the stored photo list at a suspension point.\<close>

definition otherTasks :: "(photo list option \<Rightarrow> photo list option) \<Rightarrow> world \<Rightarrow> world" where
  "otherTasks f w = w\<lparr>store := (store w)\<lparr>offline_photos := f (offline_photos (store w))\<rparr>\<rparr>"

datatype loop_result = LoopDone nat nat | LoopThrew error

text \<open>The \<open>for\<close> loop of \<open>syncPhotos\<close> from index \<open>i\<close> on, with the two counters.\<close>

fun syncLoop ::
  "environment \<Rightarrow> callback option \<Rightarrow> nat \<Rightarrow> nat \<Rightarrow> photo list \<Rightarrow> nat \<Rightarrow> nat \<Rightarrow> world
     \<Rightarrow> loop_result \<times> world" where
  "syncLoop env cb n i [] successCount failCount w = (LoopDone successCount failCount, w)"
| "syncLoop env cb n i (p # rest) successCount failCount w =
     (case onProgress cb \<lparr>current = i + 1, total = n, progress_photo = p\<rparr> w of
        (Some e, w1) \<Rightarrow> (LoopThrew e, w1)
      | (None, w1) \<Rightarrow>
          (case uploadPhoto env i p w1 of
             (Inl e, w2) \<Rightarrow>
               syncLoop env cb n (Suc i) rest successCount (failCount + 1)
                 (otherTasks (othersDuringItem env i) w2)
           | (Inr u, w2) \<Rightarrow>
               (let w3 = otherTasks (othersDuringItem env i) w2
                in case markPhotoAsSynced (markRead env i) (markWrite env i) (markClock env i)
                          (photoId p) (store w3) of
                     Inl e \<Rightarrow> syncLoop env cb n (Suc i) rest successCount (failCount + 1) w3
                   | Inr st' \<Rightarrow>
                       syncLoop env cb n (Suc i) rest (successCount + 1) failCount
                         (w3\<lparr>store := st'\<rparr>))))"

text \<open>The object \<open>syncPhotos\<close> resolves to; an absent field is \<open>None\<close>.\<close>

record sync_result =
  success :: bool
  message :: string
  count :: "nat option"
  successCount :: "nat option"
  failCount :: "nat option"

definition failure :: "string \<Rightarrow> sync_result" where
  "failure msg = \<lparr>success = False, message = msg, count = None, successCount = None,
                  failCount = None\<rparr>"

definition syncedMessage :: "nat \<Rightarrow> nat \<Rightarrow> string" where
  "syncedMessage sc fc =
     ''Synced '' @ toString_nat sc @ '' photos''
       @ (if fc > 0 then '', '' @ toString_nat fc @ '' failed'' else [])"

text \<open>The \<open>try\<close> block of \<open>syncPhotos\<close> after the flag is set; \<open>Inl\<close> is an exception
  reaching the outer \<open>catch\<close>.\<close>

definition syncBody :: "environment \<Rightarrow> callback option \<Rightarrow> world \<Rightarrow> (error + sync_result) \<times> world" where
  "syncBody env cb w =
     (if \<not> isConnectedToWiFi (network env)
      then (Inr (failure ''WiFi connection required for syncing''), w)
      else
        (case getUnsyncedPhotos (snapshotRead env) (store w) of
           Inl e \<Rightarrow> (Inl e, w)
         | Inr unsyncedPhotos \<Rightarrow>
             if length unsyncedPhotos = 0
             then (Inr \<lparr>success = True, message = ''No photos to sync'', count = Some 0,
                        successCount = None, failCount = None\<rparr>, w)
             else
               (case syncLoop env cb (length unsyncedPhotos) 0 unsyncedPhotos 0 0 w of
                  (LoopThrew e, w1) \<Rightarrow> (Inl e, w1)
                | (LoopDone sc fc, w1) \<Rightarrow>
                    (case updateLastSync (cursorWrite env) (cursorClock env) (store w1) of
                       Inl e \<Rightarrow> (Inl e, w1)
                     | Inr st2 \<Rightarrow>
                         (let w2 = otherTasks (othersAfterLoop env) (w1\<lparr>store := st2\<rparr>)
                          in case cleanupSyncedPhotos (cleanupRead env) (cleanupWrite env)
                                    (zone env) (cleanupClock env) (store w2) of
                               Inl e \<Rightarrow> (Inl e, w2)
                             | Inr st3 \<Rightarrow>
                                 (Inr \<lparr>success = True, message = syncedMessage sc fc,
                                       count = None, successCount = Some sc,
                                       failCount = Some fc\<rparr>,
                                  w2\<lparr>store := st3\<rparr>))))))"

text \<open>\<open>syncPhotos\<close>: the entry guard, the \<open>try\<close> block, the outer \<open>catch\<close> and the
  \<open>finally\<close>.\<close>

definition syncPhotos :: "environment \<Rightarrow> callback option \<Rightarrow> world \<Rightarrow> sync_result \<times> world" where
  "syncPhotos env cb w =
     (if isSyncing w then (failure ''Sync already in progress'', w)
      else
        (case syncBody env cb (w\<lparr>isSyncing := True\<rparr>) of
           (Inr r, w') \<Rightarrow> (r, w'\<lparr>isSyncing := False\<rparr>)
         | (Inl e, w') \<Rightarrow> (failure (error_message e), w'\<lparr>isSyncing := False\<rparr>)))"

text \<open>\<open>autoSync\<close> reads the network state itself before it calls \<open>syncPhotos\<close>.\<close>

definition autoSync :: "error + networkState \<Rightarrow> environment \<Rightarrow> callback option \<Rightarrow> world \<Rightarrow> sync_result \<times> world" where
  "autoSync ns env cb w =
     (if isConnectedToWiFi ns then syncPhotos env cb w
      else (failure ''No WiFi connection'', w))"

text \<open>Calls of \<open>syncPhotos\<close> one after the other, each returning before the next starts.\<close>

fun syncPasses :: "(environment \<times> callback option) list \<Rightarrow> world \<Rightarrow> sync_result list \<times> world" where
  "syncPasses [] w = ([], w)"
| "syncPasses ((env, cb) # rest) w =
     (case syncPhotos env cb w of
        (r, w') \<Rightarrow> (case syncPasses rest w' of (rs, w'') \<Rightarrow> (r # rs, w'')))"

section \<open>syncService.js: the complaint service (read-through cache)\<close>

text \<open>What the complaint service resolves to: \<open>success\<close>, \<open>data\<close>, \<open>offline\<close> (absent
  is \<open>False\<close>) and \<open>error\<close>.\<close>

record 'a service_result =
  res_success :: bool
  res_data :: "'a option"
  res_offline :: bool
  res_error :: "string option"

text \<open>\<open>error.response?.data?.detail || dflt\<close>: an absent or empty detail gives the
  default.\<close>

definition detailOr :: "error \<Rightarrow> string \<Rightarrow> string" where
  "detailOr e dflt =
     (case error_detail e of None \<Rightarrow> dflt | Some d \<Rightarrow> if d = [] then dflt else d)"

text \<open>
  \<open>ComplaintService.getComplaintById\<close>. \<open>api_get\<close> is the remote lookup by id; \<open>rd\<close>
  and \<open>wr\<close> are the faults of the upsert, \<open>rd'\<close> that of the fallback read.
\<close>

definition getComplaintById ::
  "(string \<Rightarrow> error + complaint) \<Rightarrow> error option \<Rightarrow> error option \<Rightarrow> error option \<Rightarrow> string
     \<Rightarrow> storage \<Rightarrow> error + (complaint service_result \<times> storage)" where
  "getComplaintById api_get rd wr rd' cid st =
     (let handler = (\<lambda>err.
            case storage_getComplaintById rd' cid st of
              Inl e \<Rightarrow> Inl e
            | Inr offlineData \<Rightarrow>
                (case offlineData of
                   Some c \<Rightarrow>
                     Inr (\<lparr>res_success = True, res_data = Some c, res_offline = True,
                           res_error = None\<rparr>, st)
                 | None \<Rightarrow>
                     Inr (\<lparr>res_success = False, res_data = None, res_offline = True,
                           res_error = Some (detailOr err ''Complaint not found'')\<rparr>, st)))
      in case api_get cid of
           Inl err \<Rightarrow> handler err
         | Inr data \<Rightarrow>
             (case saveSyncedComplaint rd wr data st of
                Inl err \<Rightarrow> handler err
              | Inr st' \<Rightarrow>
                  Inr (\<lparr>res_success = True, res_data = Some data, res_offline = False,
                        res_error = None\<rparr>, st')))"

text \<open>\<open>searchComplaints\<close>: the remote answer or the remote error, nothing else.\<close>

definition searchComplaints ::
  "(string \<Rightarrow> error + complaint list) \<Rightarrow> string \<Rightarrow> storage
     \<Rightarrow> error + (complaint list service_result \<times> storage)" where
  "searchComplaints api_search query st =
     (case api_search query of
        Inr data \<Rightarrow>
          Inr (\<lparr>res_success = True, res_data = Some data, res_offline = False,
                res_error = None\<rparr>, st)
      | Inl err \<Rightarrow>
          Inr (\<lparr>res_success = False, res_data = None, res_offline = False,
                res_error = Some (detailOr err ''Search failed'')\<rparr>, st))"

text \<open>The listing's payload: \<open>results\<close> may be absent.\<close>

record complaint_page =
  results :: "complaint list option"

text \<open>The \<open>for ... of\<close> loop of \<open>getAllComplaints\<close>; the \<open>i\<close>-th upsert has its own
  faults.\<close>

fun saveEach :: "(nat \<Rightarrow> error option) \<Rightarrow> (nat \<Rightarrow> error option) \<Rightarrow> nat \<Rightarrow> complaint list \<Rightarrow> storage \<Rightarrow> error + storage" where
  "saveEach rds wrs i [] st = Inr st"
| "saveEach rds wrs i (c # cs) st =
     (case saveSyncedComplaint (rds i) (wrs i) c st of
        Inl e \<Rightarrow> Inl e
      | Inr st' \<Rightarrow> saveEach rds wrs (Suc i) cs st')"

definition getAllComplaints ::
  "(error + complaint_page) \<Rightarrow> (nat \<Rightarrow> error option) \<Rightarrow> (nat \<Rightarrow> error option) \<Rightarrow> error option
     \<Rightarrow> storage \<Rightarrow> error + (complaint_page service_result \<times> storage)" where
  "getAllComplaints response rds wrs rd' st =
     (let handler = (\<lambda>err.
            case getSyncedComplaints rd' st of
              Inl e \<Rightarrow> Inl e
            | Inr offlineData \<Rightarrow>
                if length offlineData > 0
                then Inr (\<lparr>res_success = True, res_data = Some \<lparr>results = Some offlineData\<rparr>,
                           res_offline = True, res_error = None\<rparr>, st)
                else Inr (\<lparr>res_success = False, res_data = None, res_offline = False,
                           res_error = Some (detailOr err ''Failed to fetch complaints'')\<rparr>, st))
      in case response of
           Inl err \<Rightarrow> handler err
         | Inr data \<Rightarrow>
             (case (case results data of
                      Some cs \<Rightarrow> saveEach rds wrs 0 cs st
                    | None \<Rightarrow> Inr st) of
                Inl err \<Rightarrow> handler err
              | Inr st' \<Rightarrow>
                  Inr (\<lparr>res_success = True, res_data = Some data, res_offline = False,
                        res_error = None\<rparr>, st')))"

section \<open>Notions used to state the properties\<close>

text \<open>The stored photo list as \<open>getOfflinePhotos\<close> reads it when the read goes through.\<close>

definition storedPhotos :: "storage \<Rightarrow> photo list" where
  "storedPhotos st = (case offline_photos st of None \<Rightarrow> [] | Some ps \<Rightarrow> ps)"

text \<open>The stored snapshot list, likewise.\<close>

definition storedComplaints :: "storage \<Rightarrow> complaint list" where
  "storedComplaints st = (case synced_complaints st of None \<Rightarrow> [] | Some cs \<Rightarrow> cs)"

text \<open>A photo as \<open>markPhotoAsSynced\<close> rewrites it.\<close>

definition markedPhoto :: "int \<Rightarrow> photo \<Rightarrow> photo" where
  "markedPhoto now p = p\<lparr>synced := True, syncedAt := Some now\<rparr>"



text \<open>The number of events a callback returns from normally before it first throws.\<close>

definition returnsBeforeThrow :: "callback \<Rightarrow> progress_event list \<Rightarrow> nat" where
  "returnsBeforeThrow f evs = length (takeWhile (\<lambda>ev. f ev = None) evs)"




text \<open>The pending list as \<open>getUnsyncedPhotos\<close> reads it when the read goes through.\<close>

definition pendingPhotos :: "storage \<Rightarrow> photo list" where
  "pendingPhotos st = filter (\<lambda>p. \<not> synced p) (storedPhotos st)"


text \<open>The list \<open>saveSyncedComplaint\<close> writes: replace at the first index with the key,
  or push.\<close>

definition upsert :: "complaint \<Rightarrow> complaint list \<Rightarrow> complaint list" where
  "upsert c cs =
     (case findIndex (\<lambda>x. complaint_id x = complaint_id c) cs of
        Some index \<Rightarrow> cs[index := c]
      | None \<Rightarrow> cs @ [c])"

text \<open>The snapshot stored under a key.\<close>

definition snapshotOf :: "storage \<Rightarrow> string \<Rightarrow> complaint option" where
  "snapshotOf st k = find (\<lambda>c. complaint_id c = k) (storedComplaints st)"

subsection \<open>Concrete inputs\<close>

definition onWiFi :: "error + networkState" where
  "onWiFi = Inr \<lparr>isConnected = True, isInternetReachable = True, netType = WIFI\<rparr>"

definition onCellular :: "error + networkState" where
  "onCellular = Inr \<lparr>isConnected = True, isInternetReachable = True, netType = CELLULAR\<rparr>"

definition timeoutError :: error where
  "timeoutError = Error ''timeout of 60000ms exceeded'' None"

definition diskError :: error where
  "diskError = Error ''database or disk is full'' None"

definition pendingPhoto :: "string \<Rightarrow> string \<Rightarrow> photo" where
  "pendingPhoto pid u =
     \<lparr>uri = u, fileName = ''photo.jpg'', latitude = None, longitude = None, photoId = pid,
      complaintId = ''PMC2024001'', timestamp = 0, synced = False, syncedAt = None\<rparr>"

definition photoA :: photo where "photoA = pendingPhoto ''1001'' ''file:///a.jpg''"
definition photoB :: photo where "photoB = pendingPhoto ''1002'' ''file:///b.jpg''"

definition storageOf :: "photo list \<Rightarrow> storage" where
  "storageOf ps = \<lparr>offline_photos = Some ps, synced_complaints = None, last_sync = None\<rparr>"

definition idleWith :: "storage \<Rightarrow> world" where
  "idleWith st = \<lparr>isSyncing = False, store = st, posts = [], progress = [], attempts = []\<rparr>"

definition busyWith :: "storage \<Rightarrow> world" where
  "busyWith st = \<lparr>isSyncing = True, store = st, posts = [], progress = [], attempts = []\<rparr>"

text \<open>A zone whose offset never changes (UTC), and New York around the change to
  daylight time of 10 March 2024, 07:00 UTC: five hours behind UTC before it, four after,
  local time values before 03:00 of that day read with the offset before the change.\<close>

definition utcZone :: timeZone where
  "utcZone = \<lparr>offsetAtUTC = (\<lambda>t. 0), offsetAtLocal = (\<lambda>t. 0)\<rparr>"



text \<open>A pass on WiFi with no fault and no other task writing, in UTC: the marks are
  written at times 5000, 5001, ..., the cursor at 6000, the cleanup reads the clock at
  7000.\<close>

definition calmEnv :: environment where
  "calmEnv =
     \<lparr>apiBaseUrl = ''http://192.168.1.5:8000'', network = onWiFi, snapshotRead = None,
      reachable = (\<lambda>i. None), upload = (\<lambda>i. None), markRead = (\<lambda>i. None),
      markWrite = (\<lambda>i. None), markClock = (\<lambda>i. 5000 + int i), cursorWrite = None,
      cursorClock = 6000, cleanupRead = None, cleanupWrite = None, cleanupClock = 7000,
      zone = utcZone, othersDuringItem = (\<lambda>i ps. ps), othersAfterLoop = (\<lambda>ps. ps)\<rparr>"


text \<open>The same pass with the second upload timing out.\<close>

definition secondTimesOut :: environment where
  "secondTimesOut = calmEnv\<lparr>upload := (\<lambda>i. if i = 1 then Some timeoutError else None)\<rparr>"

definition quietCallback :: callback where
  "quietCallback = (\<lambda>ev. None)"

text \<open>A callback that throws when it is handed the second item.\<close>

definition throwsOnSecond :: callback where
  "throwsOnSecond = (\<lambda>ev. if current ev = 2 then Some (Error ''render failed'' None) else None)"

text \<open>A photo synced at a given time, three calls in a row, and the remote side of the
  complaint service.\<close>

definition syncedPhoto :: "string \<Rightarrow> string \<Rightarrow> int \<Rightarrow> photo" where
  "syncedPhoto pid u t = (pendingPhoto pid u)\<lparr>synced := True, syncedAt := Some t\<rparr>"

definition threePasses :: "(environment \<times> callback option) list" where
  "threePasses =
     [(calmEnv\<lparr>network := onCellular\<rparr>, None), (calmEnv, Some throwsOnSecond), (calmEnv, None)]"

definition handPump :: complaint where
  "handPump = \<lparr>complaint_id = ''PMC2024001'', payload = ''Hand pump broken''\<rparr>"

definition handPumpFixed :: complaint where
  "handPumpFixed = \<lparr>complaint_id = ''PMC2024001'', payload = ''Hand pump repaired''\<rparr>"

definition roadDamage :: complaint where
  "roadDamage = \<lparr>complaint_id = ''PMC2024002'', payload = ''Road washed out''\<rparr>"

definition cacheOf :: "complaint list \<Rightarrow> storage" where
  "cacheOf cs = \<lparr>offline_photos = None, synced_complaints = Some cs, last_sync = None\<rparr>"

definition emptyStorage :: storage where
  "emptyStorage = \<lparr>offline_photos = None, synced_complaints = None, last_sync = None\<rparr>"

definition networkError :: error where
  "networkError = Error ''Network Error'' None"

definition remoteDown :: "string \<Rightarrow> error + 'a" where
  "remoteDown k = Inl networkError"

definition remoteHas :: "complaint \<Rightarrow> string \<Rightarrow> error + complaint" where
  "remoteHas c k =
     (if k = complaint_id c then Inr c
      else Inl (Error ''Request failed with status code 404'' (Some ''Not found.'')))"

definition examplePhotoData :: photoData where
  "examplePhotoData =
     \<lparr>uri = ''file:///a.jpg'', fileName = ''photo.jpg'', latitude = None, longitude = None\<rparr>"

section \<open>Basic facts about the store\<close>

lemma getOfflinePhotos_None [simp]: "getOfflinePhotos None st = Inr (storedPhotos st)"
  by (simp add: getOfflinePhotos_def getItem_def storedPhotos_def split: option.splits)

lemma getOfflinePhotos_Some [simp]: "getOfflinePhotos (Some e) st = Inr []"
  by (simp add: getOfflinePhotos_def getItem_def)

lemma storedPhotos_storageOf [simp]: "storedPhotos (storageOf ps) = ps"
  by (simp add: storedPhotos_def storageOf_def)

lemma getUnsyncedPhotos_eq:
  "getUnsyncedPhotos rd st = Inr (case rd of None \<Rightarrow> pendingPhotos st | Some e \<Rightarrow> [])"
  by (cases rd) (simp_all add: getUnsyncedPhotos_def pendingPhotos_def)



lemma updateLastSync_eq:
  "updateLastSync wr now st = Inr (case wr of Some e \<Rightarrow> st | None \<Rightarrow> st\<lparr>last_sync := Some now\<rparr>)"
  by (simp add: updateLastSync_def setItem_LAST_SYNC_def split: option.splits)

lemma cleanupSyncedPhotos_eq:
  "cleanupSyncedPhotos rd wr z now st =
     Inr (case wr of Some e \<Rightarrow> st
          | None \<Rightarrow> st\<lparr>offline_photos :=
              Some (filter (keepPhoto (setDate_minus_7 z now))
                      (case rd of None \<Rightarrow> storedPhotos st | Some e \<Rightarrow> []))\<rparr>)"
  by (cases rd; cases wr) (simp_all add: cleanupSyncedPhotos_def setItem_OFFLINE_PHOTOS_def)

lemma getSyncedComplaints_eq:
  "getSyncedComplaints rd st = Inr (case rd of None \<Rightarrow> storedComplaints st | Some e \<Rightarrow> [])"
  by (cases rd)
     (simp_all add: getSyncedComplaints_def getItem_def storedComplaints_def split: option.splits)

lemma saveSyncedComplaint_eq:
  "saveSyncedComplaint rd wr c st =
     Inr (case wr of Some e \<Rightarrow> st
          | None \<Rightarrow> st\<lparr>synced_complaints :=
               Some (upsert c (case rd of None \<Rightarrow> storedComplaints st | Some e \<Rightarrow> []))\<rparr>)"
  by (cases rd; cases wr)
     (simp_all add: saveSyncedComplaint_def getSyncedComplaints_eq setItem_SYNCED_COMPLAINTS_def
        upsert_def)

lemma storage_getComplaintById_eq:
  "storage_getComplaintById rd k st = Inr (case rd of None \<Rightarrow> snapshotOf st k | Some e \<Rightarrow> None)"
  by (cases rd) (simp_all add: storage_getComplaintById_def getSyncedComplaints_eq snapshotOf_def)

lemma saveOfflinePhoto_write_fault:
  "saveOfflinePhoto rd (Some e) idClock now cid pd st = Inl e"
  by (cases rd) (simp_all add: saveOfflinePhoto_def setItem_OFFLINE_PHOTOS_def)

lemma markPhotoAsSynced_write_fault:
  "markPhotoAsSynced rd (Some e) now pid st = Inl e"
  by (cases rd) (simp_all add: markPhotoAsSynced_def setItem_OFFLINE_PHOTOS_def)




section \<open>Storage faults\<close>

text \<open>
  C7 (as amended). Reading the pending list, the retention cleanup, the snapshot upsert,
  the snapshot lookup and the cursor accessors never raise: a faulted read gives the
  empty result, a faulted write leaves the store as it was. \<open>saveOfflinePhoto\<close> and
  \<open>markPhotoAsSynced\<close> are different: they raise the fault of their write to the
  caller, and raise in no other case.
\<close>

theorem storage_faults_degrade_or_rethrow:
  "getOfflinePhotos (Some e) st = Inr []
   \<and> getUnsyncedPhotos (Some e) st = Inr []
   \<and> getOfflinePhotosByComplaint (Some e) cid st = Inr []
   \<and> getSyncedComplaints (Some e) st = Inr []
   \<and> storage_getComplaintById (Some e) cid st = Inr None
   \<and> getLastSync (Some e) st = Inr None
   \<and> cleanupSyncedPhotos rd (Some e) z now st = Inr st
   \<and> saveSyncedComplaint rd (Some e) c st = Inr st
   \<and> updateLastSync (Some e) now st = Inr st
   \<and> (\<exists>ps. getUnsyncedPhotos rd st = Inr ps)
   \<and> (\<exists>st'. cleanupSyncedPhotos rd wr z now st = Inr st')
   \<and> (\<exists>st'. saveSyncedComplaint rd wr c st = Inr st')
   \<and> (\<exists>r. storage_getComplaintById rd cid st = Inr r)
   \<and> (\<exists>st'. updateLastSync wr now st = Inr st')
   \<and> (\<exists>r. getLastSync rd st = Inr r)
   \<and> saveOfflinePhoto rd (Some e) idClock now cid pd st = Inl e
   \<and> markPhotoAsSynced rd (Some e) now pid st = Inl e
   \<and> (\<exists>r. saveOfflinePhoto rd None idClock now cid pd st = Inr r)
   \<and> (\<exists>st'. markPhotoAsSynced rd None now pid st = Inr st')"
proof -
  have reads: "getOfflinePhotos (Some e) st = Inr []" "getUnsyncedPhotos (Some e) st = Inr []"
    "getOfflinePhotosByComplaint (Some e) cid st = Inr []"
    "getSyncedComplaints (Some e) st = Inr []"
    "storage_getComplaintById (Some e) cid st = Inr None" "getLastSync (Some e) st = Inr None"
    by (simp_all add: getUnsyncedPhotos_eq getOfflinePhotosByComplaint_def getSyncedComplaints_eq
          storage_getComplaintById_eq getLastSync_def getItem_def)
  have writes: "cleanupSyncedPhotos rd (Some e) z now st = Inr st"
    "saveSyncedComplaint rd (Some e) c st = Inr st" "updateLastSync (Some e) now st = Inr st"
    by (simp_all add: cleanupSyncedPhotos_eq saveSyncedComplaint_eq updateLastSync_eq)
  have total: "\<exists>ps. getUnsyncedPhotos rd st = Inr ps"
    "\<exists>st'. cleanupSyncedPhotos rd wr z now st = Inr st'"
    "\<exists>st'. saveSyncedComplaint rd wr c st = Inr st'"
    "\<exists>r. storage_getComplaintById rd cid st = Inr r"
    "\<exists>st'. updateLastSync wr now st = Inr st'"
    "\<exists>r. getLastSync rd st = Inr r"
    by (simp_all add: getUnsyncedPhotos_eq cleanupSyncedPhotos_eq saveSyncedComplaint_eq
          storage_getComplaintById_eq updateLastSync_eq getLastSync_def getItem_def
          split: option.splits)
  have raise: "saveOfflinePhoto rd (Some e) idClock now cid pd st = Inl e"
    "markPhotoAsSynced rd (Some e) now pid st = Inl e"
    by (rule saveOfflinePhoto_write_fault, rule markPhotoAsSynced_write_fault)
  have fine1: "\<exists>r. saveOfflinePhoto rd None idClock now cid pd st = Inr r"
    by (cases rd) (simp_all add: saveOfflinePhoto_def setItem_OFFLINE_PHOTOS_def Let_def)
  have fine2: "\<exists>st'. markPhotoAsSynced rd None now pid st = Inr st'"
    by (cases rd) (simp_all add: markPhotoAsSynced_def setItem_OFFLINE_PHOTOS_def)
  show ?thesis
    by (intro conjI) (fact reads writes total raise fine1 fine2)+
qed

text \<open>C7 as stated fails: a write fault in \<open>saveOfflinePhoto\<close> or \<open>markPhotoAsSynced\<close>
  reaches the caller.\<close>

theorem write_fault_is_raised:
  "saveOfflinePhoto None (Some diskError) 1001 1001 ''PMC2024001'' examplePhotoData (storageOf [])
     = Inl diskError
   \<and> markPhotoAsSynced None (Some diskError) 5000 ''1001'' (storageOf [photoA]) = Inl diskError"
  by (simp add: saveOfflinePhoto_write_fault markPhotoAsSynced_write_fault)

text \<open>
  A read fault followed by a write that goes through is not a no-op in the three
  read-modify-write operations: the empty list stands in for the stored one and the
  result is written back.
\<close>

lemma read_fault_overwrites_queue:
  "markPhotoAsSynced (Some diskError) None 5000 ''1001'' (storageOf [photoA, photoB])
     = Inr (storageOf [])
   \<and> cleanupSyncedPhotos (Some diskError) None utcZone 7000 (storageOf [photoA, photoB])
     = Inr (storageOf [])
   \<and> saveSyncedComplaint (Some diskError) None roadDamage (cacheOf [handPump])
     = Inr (cacheOf [roadDamage])"
  by (simp add: markPhotoAsSynced_def cleanupSyncedPhotos_eq saveSyncedComplaint_eq
        setItem_OFFLINE_PHOTOS_def storageOf_def cacheOf_def upsert_def)

section \<open>Retention cleanup\<close>





text \<open>
  Left open above: a photo synced exactly at the cutoff. The test of the filter is
  \<open>syncedDate > sevenDaysAgo\<close>, so that photo is removed, though the comment of the
  function reads "Delete synced photos older than 7 days". Here in UTC, the photo
  synced at 0 and the cleanup seven times 24 hours later.
\<close>

lemma photo_synced_at_the_cutoff_is_removed:
  "setDate_minus_7 utcZone 604800000 = 0
   \<and> cleanupSyncedPhotos None None utcZone 604800000
        (storageOf [syncedPhoto ''1001'' ''file:///a.jpg'' 0])
       = Inr (storageOf [])"
  by (simp add: cleanupSyncedPhotos_eq keepPhoto_def setDate_minus_7_def UTC_def LocalTime_def
        msPerDay_def utcZone_def syncedPhoto_def storageOf_def storedPhotos_def)

section \<open>The entry guard and the WiFi precondition\<close>

text \<open>
  C3. While a pass is running (\<open>isSyncing\<close> is set), a call of \<open>syncPhotos\<close> returns the
  failure "Sync already in progress" at once and leaves everything as it was: the store
  (pending list, marks, cursor), the log of uploads and the log of callback invocations.
\<close>

theorem second_invocation_rejected:
  "isSyncing w \<Longrightarrow>
   syncPhotos env cb w =
     (\<lparr>success = False, message = ''Sync already in progress'', count = None,
       successCount = None, failCount = None\<rparr>, w)"
  by (simp add: syncPhotos_def failure_def)

theorem second_invocation_rejected_witness:
  "isSyncing (busyWith (storageOf [photoA, photoB]))
   \<and> syncPhotos calmEnv (Some quietCallback) (busyWith (storageOf [photoA, photoB])) =
       (\<lparr>success = False, message = ''Sync already in progress'', count = None,
         successCount = None, failCount = None\<rparr>, busyWith (storageOf [photoA, photoB]))"
proof -
  have h: "isSyncing (busyWith (storageOf [photoA, photoB]))"
    by (simp add: busyWith_def)
  from second_invocation_rejected [OF h, of calmEnv "Some quietCallback"] h
  show ?thesis by simp
qed

text \<open>
  C2. When the service is idle and the network state is not a connected WiFi, \<open>syncPhotos\<close>
  returns the failure "WiFi connection required for syncing" and the world afterwards
  is the world before: same pending list, same \<open>synced\<close> flags, same cursor, no cleanup,
  no upload, no callback.
\<close>

theorem no_wifi_no_mutation:
  "\<not> isSyncing w \<Longrightarrow> \<not> isConnectedToWiFi (network env) \<Longrightarrow>
   syncPhotos env cb w =
     (\<lparr>success = False, message = ''WiFi connection required for syncing'', count = None,
       successCount = None, failCount = None\<rparr>, w)"
  by (simp add: syncPhotos_def syncBody_def failure_def)

theorem no_wifi_no_mutation_witness:
  "\<not> isSyncing (idleWith (storageOf [photoA, photoB]))
   \<and> \<not> isConnectedToWiFi (network (calmEnv\<lparr>network := onCellular\<rparr>))
   \<and> syncPhotos (calmEnv\<lparr>network := onCellular\<rparr>) (Some quietCallback)
         (idleWith (storageOf [photoA, photoB])) =
       (\<lparr>success = False, message = ''WiFi connection required for syncing'', count = None,
         successCount = None, failCount = None\<rparr>, idleWith (storageOf [photoA, photoB]))"
proof -
  have h1: "\<not> isSyncing (idleWith (storageOf [photoA, photoB]))"
    by (simp add: idleWith_def)
  have h2: "\<not> isConnectedToWiFi (network (calmEnv\<lparr>network := onCellular\<rparr>))"
    by (simp add: isConnectedToWiFi_def onCellular_def)
  from no_wifi_no_mutation [OF h1 h2, of "Some quietCallback"] h1 h2
  show ?thesis by simp
qed

section \<open>The guard flag\<close>

lemma syncPhotos_flag: "\<not> isSyncing w \<Longrightarrow> \<not> isSyncing (snd (syncPhotos env cb w))"
  by (simp add: syncPhotos_def split: prod.splits sum.splits)

lemma syncPasses_flag: "\<not> isSyncing w \<Longrightarrow> \<not> isSyncing (snd (syncPasses passes w))"
proof (induction passes arbitrary: w)
  case Nil
  then show ?case by simp
next
  case (Cons a passes)
  obtain env cb where a: "a = (env, cb)" by (cases a)
  obtain r w' where s: "syncPhotos env cb w = (r, w')" by (cases "syncPhotos env cb w")
  from syncPhotos_flag [OF Cons.prems, of env cb] s have "\<not> isSyncing w'" by simp
  from Cons.IH [OF this] show ?case using a s by (auto split: prod.splits)
qed

text \<open>
  C10. A call of \<open>syncPhotos\<close> that passes the entry guard leaves \<open>isSyncing\<close> false when
  it returns, whatever the network, the store, the uploads and the callback do (so on
  the precondition failure, the empty queue, a completed loop and a caught exception
  alike). Hence after any number of calls made one after the other from an idle service
  the flag is false: each of them found it false and none was turned away by the guard.
\<close>

theorem flag_reset_on_every_exit:
  "\<not> isSyncing w \<Longrightarrow>
   \<not> isSyncing (snd (syncPhotos env cb w))
   \<and> (\<forall>k \<le> length passes. \<not> isSyncing (snd (syncPasses (take k passes) w)))"
  by (simp add: syncPhotos_flag syncPasses_flag)

text \<open>Three calls in a row on a queue of two photos: without WiFi, with a callback that
  throws, and a clean one; the last finds the flag reset and syncs both photos.\<close>

theorem flag_reset_on_every_exit_witness:
  "\<not> isSyncing (idleWith (storageOf [photoA, photoB]))
   \<and> \<not> isSyncing (snd (syncPhotos calmEnv (Some throwsOnSecond) (idleWith (storageOf [photoA, photoB]))))
   \<and> \<not> isSyncing (snd (syncPasses threePasses (idleWith (storageOf [photoA, photoB]))))
   \<and> map message (fst (syncPasses threePasses (idleWith (storageOf [photoA, photoB])))) =
       [''WiFi connection required for syncing'', ''render failed'', ''Synced 1 photos'']"
proof -
  have h: "\<not> isSyncing (idleWith (storageOf [photoA, photoB]))"
    by (simp add: idleWith_def)
  note T = flag_reset_on_every_exit [OF h, of calmEnv "Some throwsOnSecond" threePasses]
  have len: "3 \<le> length threePasses" by (simp add: threePasses_def)
  from T have "\<not> isSyncing (snd (syncPasses (take 3 threePasses) (idleWith (storageOf [photoA, photoB]))))"
    using len by blast
  then have seq: "\<not> isSyncing (snd (syncPasses threePasses (idleWith (storageOf [photoA, photoB]))))"
    by (simp add: threePasses_def)
  have msgs: "map message (fst (syncPasses threePasses (idleWith (storageOf [photoA, photoB])))) =
       [''WiFi connection required for syncing'', ''render failed'', ''Synced 1 photos'']"
    by code_simp
  from h T seq msgs show ?thesis by blast
qed

section \<open>The loop of a pass\<close>




lemma otherTasks_fields [simp]:
  "progress (otherTasks f w) = progress w" "attempts (otherTasks f w) = attempts w"
  "posts (otherTasks f w) = posts w" "isSyncing (otherTasks f w) = isSyncing w"
  "last_sync (store (otherTasks f w)) = last_sync (store w)"
  "synced_complaints (store (otherTasks f w)) = synced_complaints (store w)"
  "offline_photos (store (otherTasks f w)) = f (offline_photos (store w))"
  by (simp_all add: otherTasks_def)






lemma returnsBeforeThrow_le: "returnsBeforeThrow f evs \<le> length evs"
  by (simp add: returnsBeforeThrow_def length_takeWhile_le)



section \<open>A pass in terms of its loop\<close>





section \<open>Progress events\<close>




section \<open>Cursor and cleanup after the loop\<close>




section \<open>What the loop does to the queue\<close>







lemma photoId_markedPhoto [simp]: "photoId (markedPhoto t q) = photoId q"
  by (simp add: markedPhoto_def)





section \<open>Accounting for every artifact\<close>





text \<open>
  Three more ways in which stored photos go unaccounted, all outside what the theorem
  above assumes. Two photos saved at one reading of \<open>Date.now()\<close> share an id, and the
  mark of the first marks the second, whose upload failed. A faulted read in
  \<open>markPhotoAsSynced\<close> followed by a write that goes through empties the queue,
  the photo whose upload then fails included. And every storage operation reads the
  list, awaits, and writes the whole list back: a \<open>saveOfflinePhoto\<close> of another task
  that read the list before the mark and writes it after the mark puts the photo back as
  pending, though the pass counted it in \<open>successCount\<close>.
\<close>

lemma same_clock_reading_same_id:
  "saveOfflinePhoto None None 1001 1001 ''PMC2024001'' examplePhotoData (storageOf []) =
     Inr (photoA\<lparr>timestamp := 1001\<rparr>, storageOf [photoA\<lparr>timestamp := 1001\<rparr>])
   \<and> saveOfflinePhoto None None 1001 1001 ''PMC2024001''
        (examplePhotoData\<lparr>uri := ''file:///a2.jpg''\<rparr>)
        (storageOf [photoA\<lparr>timestamp := 1001\<rparr>]) =
     Inr ((pendingPhoto ''1001'' ''file:///a2.jpg'')\<lparr>timestamp := 1001\<rparr>,
          storageOf [photoA\<lparr>timestamp := 1001\<rparr>,
                     (pendingPhoto ''1001'' ''file:///a2.jpg'')\<lparr>timestamp := 1001\<rparr>])"
  by code_simp

lemma shared_id_marks_failed_photo:
  "fst (syncPhotos secondTimesOut None
          (idleWith (storageOf [photoA, pendingPhoto ''1001'' ''file:///a2.jpg''])))
     = \<lparr>success = True, message = ''Synced 1 photos, 1 failed'', count = None,
        successCount = Some 1, failCount = Some 1\<rparr>
   \<and> getUnsyncedPhotos None
        (store (snd (syncPhotos secondTimesOut None
           (idleWith (storageOf [photoA, pendingPhoto ''1001'' ''file:///a2.jpg''])))))
     = Inr []
   \<and> posts (snd (syncPhotos secondTimesOut None
           (idleWith (storageOf [photoA, pendingPhoto ''1001'' ''file:///a2.jpg'']))))
     = [(photoA, True), (pendingPhoto ''1001'' ''file:///a2.jpg'', False)]"
  by code_simp

lemma read_fault_in_mark_loses_failed_photo:
  "fst (syncPhotos (secondTimesOut\<lparr>markRead := (\<lambda>i. if i = 0 then Some diskError else None)\<rparr>)
          None (idleWith (storageOf [photoA, photoB])))
     = \<lparr>success = True, message = ''Synced 1 photos, 1 failed'', count = None,
        successCount = Some 1, failCount = Some 1\<rparr>
   \<and> store (snd (syncPhotos
          (secondTimesOut\<lparr>markRead := (\<lambda>i. if i = 0 then Some diskError else None)\<rparr>)
          None (idleWith (storageOf [photoA, photoB]))))
     = (storageOf [])\<lparr>last_sync := Some 6000\<rparr>"
  by code_simp

lemma write_of_another_task_undoes_mark:
  "fst (syncPhotos
          (calmEnv\<lparr>othersAfterLoop :=
             (\<lambda>ps. Some [photoA, pendingPhoto ''1004'' ''file:///d.jpg''])\<rparr>)
          None (idleWith (storageOf [photoA])))
     = \<lparr>success = True, message = ''Synced 1 photos'', count = None,
        successCount = Some 1, failCount = Some 0\<rparr>
   \<and> pendingPhotos (store (snd (syncPhotos
          (calmEnv\<lparr>othersAfterLoop :=
             (\<lambda>ps. Some [photoA, pendingPhoto ''1004'' ''file:///d.jpg''])\<rparr>)
          None (idleWith (storageOf [photoA])))))
     = [photoA, pendingPhoto ''1004'' ''file:///d.jpg'']"
  by code_simp

section \<open>The read-through cache\<close>

lemma find_upsert:
  "find (\<lambda>x. complaint_id x = k) (upsert c cs) =
     (if complaint_id c = k then Some c else find (\<lambda>x. complaint_id x = k) cs)"
  unfolding upsert_def
  by (induction cs) (auto split: option.splits)

lemma snapshotOf_save:
  "saveSyncedComplaint None None c st = Inr st' \<Longrightarrow>
   snapshotOf st' k = (if complaint_id c = k then Some c else snapshotOf st k)"
  by (auto simp: saveSyncedComplaint_eq snapshotOf_def storedComplaints_def find_upsert)

lemma find_app:
  "find P (xs @ ys) = (case find P xs of Some x \<Rightarrow> Some x | None \<Rightarrow> find P ys)"
  by (induction xs) simp_all

text \<open>The loop of the listing with no storage fault: under each key the last element of
  the listing with that key, or what was stored before.\<close>

lemma saveEach_healthy:
  "\<exists>st'. saveEach (\<lambda>i. None) (\<lambda>i. None) i cs st = Inr st'
     \<and> (\<forall>k. snapshotOf st' k =
           (case find (\<lambda>c. complaint_id c = k) (rev cs) of
              Some c \<Rightarrow> Some c
            | None \<Rightarrow> snapshotOf st k))"
proof (induction cs arbitrary: i st)
  case Nil
  then show ?case by simp
next
  case (Cons c cs)
  obtain st1 where st1: "saveSyncedComplaint None None c st = Inr st1"
    by (simp add: saveSyncedComplaint_eq)
  from Cons.IH [of "Suc i" st1] obtain st' where
    st': "saveEach (\<lambda>i. None) (\<lambda>i. None) (Suc i) cs st1 = Inr st'"
      "\<forall>k. snapshotOf st' k =
           (case find (\<lambda>c. complaint_id c = k) (rev cs) of
              Some c \<Rightarrow> Some c
            | None \<Rightarrow> snapshotOf st1 k)"
    by blast
  show ?case
    using st1 st' snapshotOf_save [OF st1]
    by (intro exI [of _ st']) (auto simp: find_app split: option.splits)
qed

lemma getComplaintById_success:
  "api_get cid = Inr data \<Longrightarrow>
   \<exists>st'. saveSyncedComplaint rd wr data st = Inr st'
     \<and> getComplaintById api_get rd wr rd' cid st =
         Inr (\<lparr>res_success = True, res_data = Some data, res_offline = False,
               res_error = None\<rparr>, st')
     \<and> (rd = None \<and> wr = None \<longrightarrow>
          storage_getComplaintById None (complaint_id data) st' = Inr (Some data))"
  by (cases rd; cases wr)
     (simp_all add: getComplaintById_def saveSyncedComplaint_eq storage_getComplaintById_eq
        snapshotOf_def storedComplaints_def find_upsert)

lemma getComplaintById_failure:
  "api_get cid = Inl err \<Longrightarrow>
   getComplaintById api_get rd wr rd' cid st =
     (case storage_getComplaintById rd' cid st of
        Inl e \<Rightarrow> Inl e
      | Inr None \<Rightarrow>
          Inr (\<lparr>res_success = False, res_data = None, res_offline = True,
                res_error = Some (detailOr err ''Complaint not found'')\<rparr>, st)
      | Inr (Some c) \<Rightarrow>
          Inr (\<lparr>res_success = True, res_data = Some c, res_offline = True,
                res_error = None\<rparr>, st))"
  by (simp add: getComplaintById_def storage_getComplaintById_eq split: option.splits)

text \<open>
  C6. \<open>getComplaintById\<close> of the complaint service: when the remote lookup succeeds, the
  payload is handed to \<open>saveSyncedComplaint\<close> and returned with \<open>offline\<close> unset, and
  (the storage not faulting) it is then the stored snapshot under its key; when the
  remote lookup fails, the stored snapshot under the requested key, if the store
  reports one, is returned with \<open>offline\<close> set, and otherwise the failure
  "Complaint not found" (or the detail the server sent). A key whose remote lookup fails
  and that has no stored snapshot gets the failure, never a snapshot; and a payload
  fetched under its own key is what the next failing lookup of that key returns.
\<close>

theorem read_through_fetch:
  "(\<forall>data. api_get cid = Inr data \<longrightarrow>
      (\<exists>st'. saveSyncedComplaint rd wr data st = Inr st'
         \<and> getComplaintById api_get rd wr rd' cid st =
             Inr (\<lparr>res_success = True, res_data = Some data, res_offline = False,
                   res_error = None\<rparr>, st')
         \<and> (rd = None \<and> wr = None \<longrightarrow>
              storage_getComplaintById None (complaint_id data) st' = Inr (Some data))))
   \<and> (\<forall>err c. api_get cid = Inl err \<and> storage_getComplaintById rd' cid st = Inr (Some c) \<longrightarrow>
        getComplaintById api_get rd wr rd' cid st =
          Inr (\<lparr>res_success = True, res_data = Some c, res_offline = True,
                res_error = None\<rparr>, st))
   \<and> (\<forall>err. api_get cid = Inl err \<and> storage_getComplaintById rd' cid st = Inr None \<longrightarrow>
        getComplaintById api_get rd wr rd' cid st =
          Inr (\<lparr>res_success = False, res_data = None, res_offline = True,
                res_error = Some (detailOr err ''Complaint not found'')\<rparr>, st))
   \<and> (\<forall>err. api_get cid = Inl err \<and> storage_getComplaintById None cid st = Inr None \<longrightarrow>
        getComplaintById api_get rd wr rd' cid st =
          Inr (\<lparr>res_success = False, res_data = None, res_offline = True,
                res_error = Some (detailOr err ''Complaint not found'')\<rparr>, st))
   \<and> (\<forall>data err later. api_get cid = Inr data \<and> complaint_id data = cid \<and> later cid = Inl err \<longrightarrow>
        (\<exists>st'. getComplaintById api_get None None None cid st =
                 Inr (\<lparr>res_success = True, res_data = Some data, res_offline = False,
                       res_error = None\<rparr>, st')
           \<and> getComplaintById later None None None cid st' =
                 Inr (\<lparr>res_success = True, res_data = Some data, res_offline = True,
                       res_error = None\<rparr>, st')))"
proof (intro conjI allI impI)
  fix data assume "api_get cid = Inr data"
  then show "\<exists>st'. saveSyncedComplaint rd wr data st = Inr st'
         \<and> getComplaintById api_get rd wr rd' cid st =
             Inr (\<lparr>res_success = True, res_data = Some data, res_offline = False,
                   res_error = None\<rparr>, st')
         \<and> (rd = None \<and> wr = None \<longrightarrow>
              storage_getComplaintById None (complaint_id data) st' = Inr (Some data))"
    by (rule getComplaintById_success)
next
  fix err c assume "api_get cid = Inl err \<and> storage_getComplaintById rd' cid st = Inr (Some c)"
  then show "getComplaintById api_get rd wr rd' cid st =
          Inr (\<lparr>res_success = True, res_data = Some c, res_offline = True,
                res_error = None\<rparr>, st)"
    by (simp add: getComplaintById_failure)
next
  fix err assume "api_get cid = Inl err \<and> storage_getComplaintById rd' cid st = Inr None"
  then show "getComplaintById api_get rd wr rd' cid st =
          Inr (\<lparr>res_success = False, res_data = None, res_offline = True,
                res_error = Some (detailOr err ''Complaint not found'')\<rparr>, st)"
    by (simp add: getComplaintById_failure)
next
  fix err assume a: "api_get cid = Inl err \<and> storage_getComplaintById None cid st = Inr None"
  then have "storage_getComplaintById rd' cid st = Inr None"
    by (cases rd') (simp_all add: storage_getComplaintById_eq)
  with a show "getComplaintById api_get rd wr rd' cid st =
          Inr (\<lparr>res_success = False, res_data = None, res_offline = True,
                res_error = Some (detailOr err ''Complaint not found'')\<rparr>, st)"
    by (simp add: getComplaintById_failure)
next
  fix data err and later :: "string \<Rightarrow> error + complaint"
  assume a: "api_get cid = Inr data \<and> complaint_id data = cid \<and> later cid = Inl err"
  from getComplaintById_success [where api_get = api_get and cid = cid and data = data
      and rd = None and wr = None and rd' = None and st = st] a
  obtain st' where st': "getComplaintById api_get None None None cid st =
             Inr (\<lparr>res_success = True, res_data = Some data, res_offline = False,
                   res_error = None\<rparr>, st')"
    "storage_getComplaintById None cid st' = Inr (Some data)"
    by auto
  from a st'(2) have "getComplaintById later None None None cid st' =
                 Inr (\<lparr>res_success = True, res_data = Some data, res_offline = True,
                       res_error = None\<rparr>, st')"
    by (simp add: getComplaintById_failure)
  with st'(1) show "\<exists>st'. getComplaintById api_get None None None cid st =
                 Inr (\<lparr>res_success = True, res_data = Some data, res_offline = False,
                       res_error = None\<rparr>, st')
           \<and> getComplaintById later None None None cid st' =
                 Inr (\<lparr>res_success = True, res_data = Some data, res_offline = True,
                       res_error = None\<rparr>, st')"
    by blast
qed

text \<open>A lookup that succeeds on an empty store, the same key when the remote is down
  afterwards, and a key that was never cached.\<close>

theorem read_through_fetch_witness:
  "getComplaintById (remoteHas handPump) None None None ''PMC2024001'' emptyStorage =
     Inr (\<lparr>res_success = True, res_data = Some handPump, res_offline = False,
           res_error = None\<rparr>, cacheOf [handPump])
   \<and> getComplaintById remoteDown None None None ''PMC2024001'' (cacheOf [handPump]) =
     Inr (\<lparr>res_success = True, res_data = Some handPump, res_offline = True,
           res_error = None\<rparr>, cacheOf [handPump])
   \<and> getComplaintById remoteDown None None None ''X'' (cacheOf [handPump]) =
     Inr (\<lparr>res_success = False, res_data = None, res_offline = True,
           res_error = Some ''Complaint not found''\<rparr>, cacheOf [handPump])"
proof -
  note T1 = read_through_fetch [where api_get = "remoteHas handPump" and cid = "''PMC2024001''"
      and rd = None and wr = None and rd' = None and st = emptyStorage]
  note T2 = read_through_fetch [where api_get = remoteDown and cid = "''PMC2024001''"
      and rd = None and wr = None and rd' = None and st = "cacheOf [handPump]"]
  note T3 = read_through_fetch [where api_get = remoteDown and cid = "''X''"
      and rd = None and wr = None and rd' = None and st = "cacheOf [handPump]"]
  have r: "remoteHas handPump ''PMC2024001'' = Inr handPump"
    by (simp add: remoteHas_def handPump_def)
  have s: "saveSyncedComplaint None None handPump emptyStorage = Inr (cacheOf [handPump])"
    by (simp add: saveSyncedComplaint_eq emptyStorage_def cacheOf_def storedComplaints_def upsert_def)
  from T1 r obtain st' where "saveSyncedComplaint None None handPump emptyStorage = Inr st'"
    "getComplaintById (remoteHas handPump) None None None ''PMC2024001'' emptyStorage =
       Inr (\<lparr>res_success = True, res_data = Some handPump, res_offline = False,
             res_error = None\<rparr>, st')"
    by blast
  with s have a: "getComplaintById (remoteHas handPump) None None None ''PMC2024001'' emptyStorage =
       Inr (\<lparr>res_success = True, res_data = Some handPump, res_offline = False,
             res_error = None\<rparr>, cacheOf [handPump])"
    by simp
  have d: "remoteDown ''PMC2024001'' = Inl networkError" "remoteDown ''X'' = Inl networkError"
    by (simp_all add: remoteDown_def)
  have l1: "storage_getComplaintById None ''PMC2024001'' (cacheOf [handPump]) = Inr (Some handPump)"
    by (simp add: storage_getComplaintById_eq snapshotOf_def storedComplaints_def cacheOf_def
          handPump_def)
  have l2: "storage_getComplaintById None ''X'' (cacheOf [handPump]) = Inr None"
    by (simp add: storage_getComplaintById_eq snapshotOf_def storedComplaints_def cacheOf_def
          handPump_def)
  from T2 d(1) l1 have b: "getComplaintById remoteDown None None None ''PMC2024001'' (cacheOf [handPump]) =
     Inr (\<lparr>res_success = True, res_data = Some handPump, res_offline = True,
           res_error = None\<rparr>, cacheOf [handPump])"
    by blast
  from T3 d(2) l2 have "getComplaintById remoteDown None None None ''X'' (cacheOf [handPump]) =
     Inr (\<lparr>res_success = False, res_data = None, res_offline = True,
           res_error = Some (detailOr networkError ''Complaint not found'')\<rparr>, cacheOf [handPump])"
    by blast
  then have c: "getComplaintById remoteDown None None None ''X'' (cacheOf [handPump]) =
     Inr (\<lparr>res_success = False, res_data = None, res_offline = True,
           res_error = Some ''Complaint not found''\<rparr>, cacheOf [handPump])"
    by (simp add: detailOr_def networkError_def)
  from a b c show ?thesis by blast
qed

text \<open>The loop of the listing never raises, so its \<open>catch\<close> is reached from the
  remote failure only.\<close>

lemma saveEach_total: "\<exists>st'. saveEach rds wrs i cs st = Inr st'"
  by (induction cs arbitrary: i st) (simp_all add: saveSyncedComplaint_eq)

lemma getAllComplaints_failure:
  "getAllComplaints (Inl err) rds wrs rd' st =
     (case getSyncedComplaints rd' st of
        Inl e \<Rightarrow> Inl e
      | Inr offlineData \<Rightarrow>
          if offlineData \<noteq> []
          then Inr (\<lparr>res_success = True, res_data = Some \<lparr>results = Some offlineData\<rparr>,
                     res_offline = True, res_error = None\<rparr>, st)
          else Inr (\<lparr>res_success = False, res_data = None, res_offline = False,
                     res_error = Some (detailOr err ''Failed to fetch complaints'')\<rparr>, st))"
  by (simp add: getAllComplaints_def getSyncedComplaints_eq split: option.splits)

lemma getAllComplaints_success:
  "results data = Some cs \<Longrightarrow>
   \<exists>st'. getAllComplaints (Inr data) (\<lambda>i. None) (\<lambda>i. None) rd' st =
           Inr (\<lparr>res_success = True, res_data = Some data, res_offline = False,
                 res_error = None\<rparr>, st')
     \<and> (\<forall>k. storage_getComplaintById None k st' =
            (case find (\<lambda>c. complaint_id c = k) (rev cs) of
               Some c \<Rightarrow> Inr (Some c)
             | None \<Rightarrow> storage_getComplaintById None k st))"
proof -
  from saveEach_healthy [of 0 cs st] obtain st' where
    st': "saveEach (\<lambda>i. None) (\<lambda>i. None) 0 cs st = Inr st'"
      "\<forall>k. snapshotOf st' k =
           (case find (\<lambda>c. complaint_id c = k) (rev cs) of
              Some c \<Rightarrow> Some c
            | None \<Rightarrow> snapshotOf st k)"
    by blast
  assume "results data = Some cs"
  with st' show ?thesis
    by (intro exI [of _ st'])
       (simp add: getAllComplaints_def storage_getComplaintById_eq split: option.splits)
qed

text \<open>
  C8 (as amended). The cache wraps the lookup by id and the bulk listing. The listing,
  on remote success, upserts each element of \<open>results\<close> on its own (afterwards the store
  holds under each key the last listed element with that key, and what it held before
  under the other keys; a payload without \<open>results\<close> leaves the store as it is), and on
  remote failure returns the stored snapshots with \<open>offline\<close> set when there is at least
  one, else the failure. The lookup by id refreshes the snapshot on success and returns
  the stored one with \<open>offline\<close> set on failure. The search does neither: it returns the
  remote answer or the remote failure, whatever is stored, never sets \<open>offline\<close> and
  never writes the store.
\<close>

theorem cache_wraps_lookup_and_listing:
  "(\<forall>data cs. response = Inr data \<and> results data = Some cs \<longrightarrow>
      (\<exists>st'. getAllComplaints response (\<lambda>i. None) (\<lambda>i. None) rd' st =
               Inr (\<lparr>res_success = True, res_data = Some data, res_offline = False,
                     res_error = None\<rparr>, st')
         \<and> (\<forall>k. storage_getComplaintById None k st' =
                (case find (\<lambda>c. complaint_id c = k) (rev cs) of
                   Some c \<Rightarrow> Inr (Some c)
                 | None \<Rightarrow> storage_getComplaintById None k st))))
   \<and> (\<forall>data. response = Inr data \<and> results data = None \<longrightarrow>
        getAllComplaints response rds wrs rd' st =
          Inr (\<lparr>res_success = True, res_data = Some data, res_offline = False,
                res_error = None\<rparr>, st))
   \<and> (\<forall>err cached. response = Inl err \<and> getSyncedComplaints rd' st = Inr cached
          \<and> cached \<noteq> [] \<longrightarrow>
        getAllComplaints response rds wrs rd' st =
          Inr (\<lparr>res_success = True, res_data = Some \<lparr>results = Some cached\<rparr>,
                res_offline = True, res_error = None\<rparr>, st))
   \<and> (\<forall>err. response = Inl err \<and> getSyncedComplaints rd' st = Inr [] \<longrightarrow>
        getAllComplaints response rds wrs rd' st =
          Inr (\<lparr>res_success = False, res_data = None, res_offline = False,
                res_error = Some (detailOr err ''Failed to fetch complaints'')\<rparr>, st))
   \<and> (\<forall>data. api_get cid = Inr data \<longrightarrow>
        (\<exists>st'. getComplaintById api_get None None rd' cid st =
                 Inr (\<lparr>res_success = True, res_data = Some data, res_offline = False,
                       res_error = None\<rparr>, st')
           \<and> storage_getComplaintById None (complaint_id data) st' = Inr (Some data)))
   \<and> (\<forall>err c. api_get cid = Inl err \<and> storage_getComplaintById rd' cid st = Inr (Some c) \<longrightarrow>
        getComplaintById api_get rd wr rd' cid st =
          Inr (\<lparr>res_success = True, res_data = Some c, res_offline = True,
                res_error = None\<rparr>, st))
   \<and> (\<forall>data. api_search query = Inr data \<longrightarrow>
        searchComplaints api_search query st =
          Inr (\<lparr>res_success = True, res_data = Some data, res_offline = False,
                res_error = None\<rparr>, st))
   \<and> (\<forall>err. api_search query = Inl err \<longrightarrow>
        searchComplaints api_search query st =
          Inr (\<lparr>res_success = False, res_data = None, res_offline = False,
                res_error = Some (detailOr err ''Search failed'')\<rparr>, st))"
proof (intro conjI allI impI)
  fix data cs assume "response = Inr data \<and> results data = Some cs"
  then show "\<exists>st'. getAllComplaints response (\<lambda>i. None) (\<lambda>i. None) rd' st =
               Inr (\<lparr>res_success = True, res_data = Some data, res_offline = False,
                     res_error = None\<rparr>, st')
         \<and> (\<forall>k. storage_getComplaintById None k st' =
                (case find (\<lambda>c. complaint_id c = k) (rev cs) of
                   Some c \<Rightarrow> Inr (Some c)
                 | None \<Rightarrow> storage_getComplaintById None k st))"
    using getAllComplaints_success [of data cs rd' st] by simp
next
  fix data assume "response = Inr data \<and> results data = None"
  then show "getAllComplaints response rds wrs rd' st =
          Inr (\<lparr>res_success = True, res_data = Some data, res_offline = False,
                res_error = None\<rparr>, st)"
    by (simp add: getAllComplaints_def)
next
  fix err cached
  assume "response = Inl err \<and> getSyncedComplaints rd' st = Inr cached \<and> cached \<noteq> []"
  then show "getAllComplaints response rds wrs rd' st =
          Inr (\<lparr>res_success = True, res_data = Some \<lparr>results = Some cached\<rparr>,
                res_offline = True, res_error = None\<rparr>, st)"
    by (simp add: getAllComplaints_failure)
next
  fix err assume "response = Inl err \<and> getSyncedComplaints rd' st = Inr []"
  then show "getAllComplaints response rds wrs rd' st =
          Inr (\<lparr>res_success = False, res_data = None, res_offline = False,
                res_error = Some (detailOr err ''Failed to fetch complaints'')\<rparr>, st)"
    by (simp add: getAllComplaints_failure)
next
  fix data assume "api_get cid = Inr data"
  with getComplaintById_success [where api_get = api_get and cid = cid and data = data
      and rd = None and wr = None and st = st and rd' = rd']
  show "\<exists>st'. getComplaintById api_get None None rd' cid st =
                 Inr (\<lparr>res_success = True, res_data = Some data, res_offline = False,
                       res_error = None\<rparr>, st')
           \<and> storage_getComplaintById None (complaint_id data) st' = Inr (Some data)"
    by auto
next
  fix err c assume "api_get cid = Inl err \<and> storage_getComplaintById rd' cid st = Inr (Some c)"
  then show "getComplaintById api_get rd wr rd' cid st =
          Inr (\<lparr>res_success = True, res_data = Some c, res_offline = True,
                res_error = None\<rparr>, st)"
    by (simp add: getComplaintById_failure)
next
  fix data assume "api_search query = Inr data"
  then show "searchComplaints api_search query st =
          Inr (\<lparr>res_success = True, res_data = Some data, res_offline = False,
                res_error = None\<rparr>, st)"
    by (simp add: searchComplaints_def)
next
  fix err assume "api_search query = Inl err"
  then show "searchComplaints api_search query st =
          Inr (\<lparr>res_success = False, res_data = None, res_offline = False,
                res_error = Some (detailOr err ''Search failed'')\<rparr>, st)"
    by (simp add: searchComplaints_def)
qed

text \<open>A listing in which one key comes twice, on an empty store, and the listing when
  the remote is down afterwards.\<close>

theorem cache_wraps_lookup_and_listing_witness:
  "getAllComplaints (Inr \<lparr>results = Some [handPump, roadDamage, handPumpFixed]\<rparr>)
       (\<lambda>i. None) (\<lambda>i. None) None emptyStorage =
     Inr (\<lparr>res_success = True,
           res_data = Some \<lparr>results = Some [handPump, roadDamage, handPumpFixed]\<rparr>,
           res_offline = False, res_error = None\<rparr>, cacheOf [handPumpFixed, roadDamage])
   \<and> storage_getComplaintById None ''PMC2024001'' (cacheOf [handPumpFixed, roadDamage]) =
     Inr (Some handPumpFixed)
   \<and> getAllComplaints (Inl networkError) (\<lambda>i. None) (\<lambda>i. None) None
       (cacheOf [handPumpFixed, roadDamage]) =
     Inr (\<lparr>res_success = True, res_data = Some \<lparr>results = Some [handPumpFixed, roadDamage]\<rparr>,
           res_offline = True, res_error = None\<rparr>, cacheOf [handPumpFixed, roadDamage])"
proof -
  let ?page = "\<lparr>results = Some [handPump, roadDamage, handPumpFixed]\<rparr>"
  let ?cache = "cacheOf [handPumpFixed, roadDamage]"
  note T1 = cache_wraps_lookup_and_listing
    [where response = "Inr ?page" and rd' = None and st = emptyStorage]
  note T2 = cache_wraps_lookup_and_listing
    [where response = "Inl networkError" and rd' = None and st = ?cache
       and rds = "\<lambda>i. None" and wrs = "\<lambda>i. None"]
  have pre: "(Inr ?page :: error + complaint_page) = Inr ?page
      \<and> results ?page = Some [handPump, roadDamage, handPumpFixed]" by simp
  from T1 [THEN conjunct1, rule_format, OF pre] obtain st' where
    run: "getAllComplaints (Inr ?page) (\<lambda>i. None) (\<lambda>i. None) None emptyStorage =
           Inr (\<lparr>res_success = True, res_data = Some ?page, res_offline = False,
                 res_error = None\<rparr>, st')"
    and look: "\<forall>k. storage_getComplaintById None k st' =
                (case find (\<lambda>c. complaint_id c = k) (rev [handPump, roadDamage, handPumpFixed]) of
                   Some c \<Rightarrow> Inr (Some c)
                 | None \<Rightarrow> storage_getComplaintById None k emptyStorage)"
    by blast
  have "getAllComplaints (Inr ?page) (\<lambda>i. None) (\<lambda>i. None) None emptyStorage =
           Inr (\<lparr>res_success = True, res_data = Some ?page, res_offline = False,
                 res_error = None\<rparr>, ?cache)"
    by code_simp
  with run have st': "st' = ?cache" by simp
  from look [rule_format, of "''PMC2024001''"]
  have l: "storage_getComplaintById None ''PMC2024001'' ?cache = Inr (Some handPumpFixed)"
    unfolding st' by (simp add: handPump_def roadDamage_def handPumpFixed_def)
  have g: "getSyncedComplaints None ?cache = Inr [handPumpFixed, roadDamage]"
    by (simp add: getSyncedComplaints_eq storedComplaints_def cacheOf_def)
  have g': "(Inl networkError :: error + complaint_page) = Inl networkError
      \<and> getSyncedComplaints None ?cache = Inr [handPumpFixed, roadDamage]
      \<and> [handPumpFixed, roadDamage] \<noteq> []" using g by simp
  from T2 [THEN conjunct2, THEN conjunct2, THEN conjunct1, rule_format, OF g']
  have f: "getAllComplaints (Inl networkError) (\<lambda>i. None) (\<lambda>i. None) None ?cache =
     Inr (\<lparr>res_success = True, res_data = Some \<lparr>results = Some [handPumpFixed, roadDamage]\<rparr>,
           res_offline = True, res_error = None\<rparr>, ?cache)" .
  from run st' l f show ?thesis by simp
qed

text \<open>C8 as stated fails for the search: with the remote down and a snapshot stored, it
  returns the failure; with the remote up, it leaves the store empty.\<close>

theorem search_has_no_cache:
  "getSyncedComplaints None (cacheOf [handPump]) = Inr [handPump]
   \<and> searchComplaints remoteDown ''pump'' (cacheOf [handPump]) =
       Inr (\<lparr>res_success = False, res_data = None, res_offline = False,
             res_error = Some ''Search failed''\<rparr>, cacheOf [handPump])
   \<and> searchComplaints (\<lambda>q. Inr [handPump]) ''pump'' emptyStorage =
       Inr (\<lparr>res_success = True, res_data = Some [handPump], res_offline = False,
             res_error = None\<rparr>, emptyStorage)
   \<and> storage_getComplaintById None ''PMC2024001'' emptyStorage = Inr None"
  by (simp add: searchComplaints_def remoteDown_def networkError_def detailOr_def
        getSyncedComplaints_eq storage_getComplaintById_eq snapshotOf_def storedComplaints_def
        cacheOf_def emptyStorage_def)

end
